theory Spec2Isabelle
  imports Complex_Main "HOL-Library.Multiset" "HOL-Library.Product_Lexorder"
begin

section \<open>The PostgreSQL memory store (pg\_memory\_system.py)\<close>

text \<open>
  The class \<open>PGMemorySystem\<close> keeps every memory as one row of the table
  \<open>vector_store\<close> and reaches it only through five SQL statements. The embedding
  below follows the Python text of each method; an SQL statement is given its
  declarative meaning on a table value. An exception that leaves a method is a
  value \<open>Inl e\<close>; since every method runs its statement inside
  \<open>with psycopg2.connect(...)\<close>, an exception rolls the transaction back, and the
  table after \<open>Inl e\<close> is the table before the call.
\<close>

subsection \<open>Data\<close>

text \<open>The value of \<open>datetime.strptime\<close>: year, month, day, hour, minute.\<close>

type_synonym datetime = "nat \<times> nat \<times> nat \<times> nat \<times> nat"

text \<open>The dictionary \<open>metadata\<close> built by \<open>add_memory\<close> and stored as JSONB.\<close>

record jsonb_metadata =
  tags :: "string list"
  category :: string
  timestamp :: string

text \<open>
  One row of \<open>vector_store\<close>, with the columns of \<open>_init_db\<close>:
  \<open>id SERIAL PRIMARY KEY, timestamp TIMESTAMP(6), text TEXT, embedding VECTOR(384),
  model VARCHAR(50), metadata JSONB\<close>.
\<close>

record row =
  row_id :: int
  row_timestamp :: datetime
  row_text :: string
  row_embedding :: "real list"
  row_model :: string
  row_metadata :: jsonb_metadata

text \<open>
  The database: the rows in the order of their insertion, and the next value of
  the sequence behind the \<open>SERIAL\<close> column.
\<close>

record db =
  rows :: "row list"
  next_id :: int

text \<open>The dictionary returned by \<open>get_memory\<close>.\<close>

record memory =
  mem_id :: int
  content :: string
  metadata :: jsonb_metadata

text \<open>
  A value of the engine's type \<open>double precision\<close>, as far as the statements
  use it: a real number, or \<open>None\<close> for NaN.
\<close>

type_synonym float8 = "real option"

text \<open>One dictionary of the list returned by \<open>search_memories\<close>.\<close>

record hit =
  hit_id :: int
  hit_content :: string
  hit_metadata :: jsonb_metadata
  similarity :: float8

datatype error = ValueError | DataError | UniqueViolation | SequenceLimit

text \<open>
  The object \<open>self\<close> and the library operations the methods call:
  \<open>model_name\<close> is \<open>self.model_name\<close>; \<open>encode\<close> is
  \<open>self.embedding_model.encode(text).tolist()\<close>; \<open>strptime s\<close> is
  \<open>datetime.strptime(s, '%Y%m%d%H%M')\<close>, with \<open>None\<close> where it raises
  \<open>ValueError\<close>. The two functions are parameters of the model.
\<close>

record pg_memory_system =
  model_name :: string
  encode :: "string \<Rightarrow> real list"
  strptime :: "string \<Rightarrow> datetime option"

text \<open>The table after \<open>_init_db\<close> on a fresh database: no row, sequence at 1.\<close>

definition init_db :: db where
  "init_db = \<lparr>rows = [], next_id = 1\<rparr>"

subsection \<open>Python truthiness\<close>

text \<open>
  \<open>x or d\<close> for an optional string or list \<open>x\<close>: \<open>None\<close>, the empty string and
  the empty list are all falsy.
\<close>

definition py_or :: "'a list option \<Rightarrow> 'a list \<Rightarrow> 'a list" where
  "py_or x d = (case x of None \<Rightarrow> d | Some v \<Rightarrow> if v = [] then d else v)"

text \<open>\<open>if x:\<close> for such an \<open>x\<close>: the value when it is truthy.\<close>

definition truthy :: "'a list option \<Rightarrow> 'a list option" where
  "truthy x = (case x of None \<Rightarrow> None | Some v \<Rightarrow> if v = [] then None else Some v)"

subsection \<open>The SQL statements\<close>

text \<open>
  Assignment to \<open>VARCHAR(50)\<close>: a longer string is an error unless the excess
  consists of spaces, which are cut off.
\<close>

definition varchar50 :: "string \<Rightarrow> error + string" where
  "varchar50 s =
     (if length s \<le> 50 then Inr s
      else if \<forall>c \<in> set (drop 50 s). c = CHR '' '' then Inr (take 50 s)
      else Inl DataError)"

text \<open>Assignment to \<open>VECTOR(384)\<close>: any other dimension is an error.\<close>

definition vector384 :: "real list \<Rightarrow> error + real list" where
  "vector384 v = (if length v = 384 then Inr v else Inl DataError)"

text \<open>
  \<open>INSERT INTO vector_store (timestamp, text, embedding, model, metadata)
  VALUES (...) RETURNING id\<close>. The id is the next value of the sequence, which
  ends at \<open>2147483647\<close>; the primary key refuses an id that is already there.
\<close>

definition sql_insert ::
  "datetime \<Rightarrow> string \<Rightarrow> real list \<Rightarrow> string \<Rightarrow> jsonb_metadata \<Rightarrow> db \<Rightarrow> error + (int \<times> db)" where
  "sql_insert ts txt emb mdl md d =
     (case vector384 emb of
        Inl e \<Rightarrow> Inl e
      | Inr v \<Rightarrow>
          (case varchar50 mdl of
             Inl e \<Rightarrow> Inl e
           | Inr m \<Rightarrow>
               if next_id d > 2147483647 then Inl SequenceLimit
               else if \<exists>r \<in> set (rows d). row_id r = next_id d then Inl UniqueViolation
               else Inr (next_id d,
                         \<lparr>rows = rows d @
                            [\<lparr>row_id = next_id d, row_timestamp = ts, row_text = txt,
                              row_embedding = v, row_model = m, row_metadata = md\<rparr>],
                          next_id = next_id d + 1\<rparr>)))"

text \<open>\<open>SELECT ... FROM vector_store WHERE id = %s\<close> followed by \<open>fetchone()\<close>.\<close>

definition select_by_id :: "db \<Rightarrow> int \<Rightarrow> row option" where
  "select_by_id d i = find (\<lambda>r. row_id r = i) (rows d)"

text \<open>\<open>UPDATE vector_store SET ... WHERE id = %s\<close>, the assignments given as \<open>f\<close>.\<close>

definition sql_update :: "(row \<Rightarrow> row) \<Rightarrow> int \<Rightarrow> db \<Rightarrow> db" where
  "sql_update f i d = d\<lparr>rows := map (\<lambda>r. if row_id r = i then f r else r) (rows d)\<rparr>"

text \<open>\<open>DELETE FROM vector_store WHERE id = %s\<close>: the row count and the new table.\<close>

definition sql_delete :: "int \<Rightarrow> db \<Rightarrow> nat \<times> db" where
  "sql_delete i d =
     (length (filter (\<lambda>r. row_id r = i) (rows d)),
      d\<lparr>rows := filter (\<lambda>r. row_id r \<noteq> i) (rows d)\<rparr>)"

subsection \<open>The methods\<close>

definition get_embedding :: "pg_memory_system \<Rightarrow> string \<Rightarrow> real list" where
  "get_embedding sys txt = encode sys txt"

text \<open>
  \<open>add_memory\<close>. The argument \<open>now\<close> is the reading of the clock,
  \<open>datetime.now().strftime('%Y%m%d%H%M')\<close>.
\<close>

definition add_memory ::
  "pg_memory_system \<Rightarrow> string \<Rightarrow> db \<Rightarrow> string \<Rightarrow> string list option \<Rightarrow> string option \<Rightarrow>
   string option \<Rightarrow> error + (int \<times> db)" where
  "add_memory sys now d cont tgs cat ts =
     (let emb = get_embedding sys cont;
          md = \<lparr>tags = py_or tgs [], category = py_or cat ''Uncategorized'',
                timestamp = py_or ts now\<rparr>
      in case strptime sys (timestamp md) of
           None \<Rightarrow> Inl ValueError
         | Some t \<Rightarrow> sql_insert t cont emb (model_name sys) md d)"

definition get_memory :: "db \<Rightarrow> int \<Rightarrow> memory option" where
  "get_memory d memory_id =
     (case select_by_id d memory_id of
        None \<Rightarrow> None
      | Some r \<Rightarrow> Some \<lparr>mem_id = row_id r, content = row_text r, metadata = row_metadata r\<rparr>)"

text \<open>
  \<open>update_memory\<close>. The dictionary \<open>memory\<close> is changed field by field as in
  the source; \<open>embedding\<close> is \<open>None\<close> unless \<open>content\<close> is truthy, and the
  statement is chosen by \<open>if embedding:\<close>, which is false for \<open>None\<close> and for
  an empty list.
\<close>

definition update_memory ::
  "pg_memory_system \<Rightarrow> db \<Rightarrow> int \<Rightarrow> string option \<Rightarrow> string list option \<Rightarrow> string option \<Rightarrow>
   error + (bool \<times> db)" where
  "update_memory sys d memory_id cont tgs cat =
     (case get_memory d memory_id of
        None \<Rightarrow> Inr (False, d)
      | Some memory0 \<Rightarrow>
          let memory1 = (case truthy cont of
                           Some c \<Rightarrow> memory0\<lparr>content := c\<rparr>
                         | None \<Rightarrow> memory0);
              embedding = (case truthy cont of
                             Some c \<Rightarrow> Some (get_embedding sys c)
                           | None \<Rightarrow> None);
              memory2 = (case truthy tgs of
                           Some t \<Rightarrow> memory1\<lparr>metadata := (metadata memory1)\<lparr>tags := t\<rparr>\<rparr>
                         | None \<Rightarrow> memory1);
              memory3 = (case truthy cat of
                           Some g \<Rightarrow> memory2\<lparr>metadata := (metadata memory2)\<lparr>category := g\<rparr>\<rparr>
                         | None \<Rightarrow> memory2)
          in case truthy embedding of
               Some e \<Rightarrow>
                 (case vector384 e of
                    Inl err \<Rightarrow> Inl err
                  | Inr v \<Rightarrow>
                      Inr (True,
                           sql_update (\<lambda>r. r\<lparr>row_text := content memory3, row_embedding := v,
                                              row_metadata := metadata memory3\<rparr>) memory_id d))
             | None \<Rightarrow>
                 Inr (True, sql_update (\<lambda>r. r\<lparr>row_metadata := metadata memory3\<rparr>) memory_id d))"

definition delete_memory :: "db \<Rightarrow> int \<Rightarrow> bool \<times> db" where
  "delete_memory d memory_id =
     (let (rowcount, d') = sql_delete memory_id d in (rowcount > 0, d'))"

text \<open>
  \<open>search_memories\<close>. The statement is
  \<open>SELECT id, text, metadata, 1 - (embedding <=> q) AS similarity FROM vector_store
  ORDER BY embedding <=> q LIMIT k\<close>, on a table for which \<open>_init_db\<close> has
  created the index \<open>USING ivfflat (embedding vector_cosine_ops) WITH (lists = 100)\<close>.

  The operator \<open><=>\<close> is pgvector's cosine distance,
  \<open>1 - a\<cdot>b / sqrt (a\<cdot>a * b\<cdot>b)\<close>, which is NaN when one of the vectors is the
  null vector.
\<close>

definition dot :: "real list \<Rightarrow> real list \<Rightarrow> real" where
  "dot a b = sum_list (map2 (*) a b)"

definition cosine_distance :: "real list \<Rightarrow> real list \<Rightarrow> float8" where
  "cosine_distance a b =
     (if dot a a * dot b b = 0 then None
      else Some (1 - dot a b / sqrt (dot a a * dot b b)))"

text \<open>The selected column \<open>1 - (embedding <=> q)\<close>; a NaN stays a NaN.\<close>

definition similarity_of :: "real list \<Rightarrow> real list \<Rightarrow> float8" where
  "similarity_of e q = map_option (\<lambda>x. 1 - x) (cosine_distance e q)"

text \<open>
  \<open>ORDER BY\<close> sorts \<open>double precision\<close> ascending with NaN after every
  number: the sort key of a distance is the pair of "is NaN" and the number.
\<close>

definition nan_last :: "float8 \<Rightarrow> bool \<times> real" where
  "nan_last x = (case x of None \<Rightarrow> (True, 0) | Some v \<Rightarrow> (False, v))"

definition distance_key :: "real list \<Rightarrow> row \<Rightarrow> bool \<times> real" where
  "distance_key q r = nan_last (cosine_distance (row_embedding r) q)"

text \<open>
  The rows the statement ranks depend on the plan the engine takes. A
  sequential scan reads every row. A scan of the ivfflat index reads one list of
  the index (\<open>ivfflat.probes\<close> is left at 1): the index keeps each row in the
  list whose centre is nearest to its embedding, the centres being fixed when
  the index is built, and the scan reads the list whose centre is nearest to
  the query vector. A null vector has no place in a cosine index, and a null
  query vector finds nothing in it. The index is given by the function from a
  vector to the number of its list.
\<close>

datatype plan = SeqScan | IndexScan

type_synonym ivfflat = "real list \<Rightarrow> nat"

fun scan :: "ivfflat \<Rightarrow> plan \<Rightarrow> db \<Rightarrow> real list \<Rightarrow> row list" where
  "scan list_of SeqScan d q = rows d"
| "scan list_of IndexScan d q =
     (if dot q q = 0 then []
      else filter (\<lambda>r. dot (row_embedding r) (row_embedding r) \<noteq> 0 \<and>
                        list_of (row_embedding r) = list_of q) (rows d))"

text \<open>
  SQL fixes the order of the result only as far as the sort key does:
  \<open>order_by key t out\<close> says that \<open>out\<close> holds the rows \<open>t\<close> that were
  read, ascending in \<open>key\<close>. The statement names no second key, so every such
  \<open>out\<close> is a possible answer.
\<close>

definition order_by :: "('a \<Rightarrow> 'k::linorder) \<Rightarrow> 'a list \<Rightarrow> 'a list \<Rightarrow> bool" where
  "order_by key t out \<longleftrightarrow> mset out = mset t \<and> sorted (map key out)"

definition to_hit :: "real list \<Rightarrow> row \<Rightarrow> hit" where
  "to_hit q r =
     \<lparr>hit_id = row_id r, hit_content = row_text r, hit_metadata = row_metadata r,
      similarity = similarity_of (row_embedding r) q\<rparr>"

text \<open>
  The statement fails for a negative \<open>LIMIT\<close> and for a query vector that has
  not the 384 components of the column, also on an empty table.
\<close>

definition search_fails :: "pg_memory_system \<Rightarrow> db \<Rightarrow> string \<Rightarrow> int \<Rightarrow> bool" where
  "search_fails sys d query k \<longleftrightarrow>
     k < 0 \<or> length (get_embedding sys query) \<noteq> 384 \<or>
     (\<exists>r \<in> set (rows d). length (row_embedding r) \<noteq> 384)"

text \<open>The method when the engine takes the plan \<open>p\<close>.\<close>

inductive search_with ::
  "pg_memory_system \<Rightarrow> ivfflat \<Rightarrow> plan \<Rightarrow> db \<Rightarrow> string \<Rightarrow> int \<Rightarrow> error + hit list \<Rightarrow> bool" where
  search_error:
    "search_fails sys d query k \<Longrightarrow> search_with sys ix p d query k (Inl DataError)"
| search_rows:
    "\<not> search_fails sys d query k \<Longrightarrow>
     order_by (distance_key (get_embedding sys query))
       (scan ix p d (get_embedding sys query)) out \<Longrightarrow>
     search_with sys ix p d query k
       (Inr (map (to_hit (get_embedding sys query)) (take (nat k) out)))"

text \<open>
  The method: the plan is the engine's choice, so its result is related to its
  arguments, the table and the index, not a function of them.
\<close>

definition search_memories ::
  "pg_memory_system \<Rightarrow> ivfflat \<Rightarrow> db \<Rightarrow> string \<Rightarrow> int \<Rightarrow> error + hit list \<Rightarrow> bool" where
  "search_memories sys ix d query k res \<longleftrightarrow>
     search_with sys ix SeqScan d query k res \<or> search_with sys ix IndexScan d query k res"

subsection \<open>The invariant of the table\<close>

text \<open>
  What the schema and the sequence guarantee of every table the methods build:
  ids are distinct and below the sequence, every embedding has 384 components.
\<close>

definition db_inv :: "db \<Rightarrow> bool" where
  "db_inv d \<longleftrightarrow>
     distinct (map row_id (rows d)) \<and>
     (\<forall>r \<in> set (rows d). row_id r < next_id d \<and> length (row_embedding r) = 384)"

subsection \<open>A concrete system for examples\<close>

text \<open>
  An encoder that maps a text to the vector with 384 components all equal to the
  length of the text, and a parser that accepts one timestamp.
\<close>

definition example_system :: pg_memory_system where
  "example_system =
     \<lparr>model_name = ''all-MiniLM-L6-v2'',
      encode = (\<lambda>s. replicate 384 (real (length s))),
      strptime = (\<lambda>s. if s = ''202401010000'' then Some (2024, 1, 1, 0, 0) else None)\<rparr>"

definition example_row :: "int \<Rightarrow> string \<Rightarrow> string list \<Rightarrow> string \<Rightarrow> row" where
  "example_row i txt tgs cat =
     \<lparr>row_id = i, row_timestamp = (2024, 1, 1, 0, 0), row_text = txt,
      row_embedding = replicate 384 (real (length txt)), row_model = ''all-MiniLM-L6-v2'',
      row_metadata = \<lparr>tags = tgs, category = cat, timestamp = ''202401010000''\<rparr>\<rparr>"

text \<open>A table of three memories; the first two have texts of one length.\<close>

definition example_db :: db where
  "example_db =
     \<lparr>rows = [example_row 1 ''run'' [''marathon''] ''Sports'',
              example_row 2 ''fly'' [''travel''] ''Personal'',
              example_row 3 ''hello'' [] ''Uncategorized''],
      next_id = 4\<rparr>"

subsection \<open>A concrete system for searching\<close>

text \<open>
  Vectors in the plane of the first two axes, and an encoder into three unit
  vectors of that plane: \<open>(3/5, 4/5)\<close> for one text, the second axis for
  another, the first axis for every other text.
\<close>

definition axis :: "real \<Rightarrow> real \<Rightarrow> real list" where
  "axis x y = [x, y] @ replicate 382 0"

definition axis_encode :: "string \<Rightarrow> real list" where
  "axis_encode s =
     (if s = ''hello'' then axis (3/5) (4/5)
      else if s = ''docker'' then axis 0 1
      else axis 1 0)"

definition axis_system :: pg_memory_system where
  "axis_system =
     \<lparr>model_name = ''all-MiniLM-L6-v2'',
      encode = axis_encode,
      strptime = (\<lambda>s. if s = ''202401010000'' then Some (2024, 1, 1, 0, 0) else None)\<rparr>"

definition axis_row :: "int \<Rightarrow> string \<Rightarrow> real \<Rightarrow> real \<Rightarrow> row" where
  "axis_row i txt x y =
     \<lparr>row_id = i, row_timestamp = (2024, 1, 1, 0, 0), row_text = txt,
      row_embedding = axis x y, row_model = ''all-MiniLM-L6-v2'',
      row_metadata = \<lparr>tags = [], category = ''Uncategorized'',
                       timestamp = ''202401010000''\<rparr>\<rparr>"

text \<open>
  The table after adding four memories in this order; the first two have one
  embedding.
\<close>

definition axis_db :: db where
  "axis_db =
     \<lparr>rows = [axis_row 1 ''run'' 1 0, axis_row 2 ''fly'' 1 0,
              axis_row 3 ''hello'' (3/5) (4/5), axis_row 4 ''docker'' 0 1],
      next_id = 5\<rparr>"

text \<open>An entry of a search result over these rows.\<close>

definition axis_hit :: "int \<Rightarrow> string \<Rightarrow> real \<Rightarrow> hit" where
  "axis_hit i txt sim =
     \<lparr>hit_id = i, hit_content = txt,
      hit_metadata = \<lparr>tags = [], category = ''Uncategorized'',
                       timestamp = ''202401010000''\<rparr>,
      similarity = Some sim\<rparr>"

text \<open>
  An index whose rows lie in two lists, with centres on the first and on the
  second axis: a vector of the plane is nearest to the first centre when its
  first component is the larger one.
\<close>

definition axis_index :: ivfflat where
  "axis_index v = (if v ! 1 < v ! 0 then 0 else 1)"

section \<open>Lemmas on the SQL statements\<close>

lemma select_by_id_None: "select_by_id d i = None \<longleftrightarrow> i \<notin> row_id ` set (rows d)"
  by (auto simp: select_by_id_def find_None_iff)

lemma select_by_id_Some: "select_by_id d i = Some r \<Longrightarrow> r \<in> set (rows d) \<and> row_id r = i"
  by (auto simp: select_by_id_def find_Some_iff)

lemma find_map_same_id:
  assumes "\<And>r. row_id (f r) = row_id r"
  shows "find (\<lambda>r. row_id r = j) (map (\<lambda>r. if row_id r = i then f r else r) xs) =
         map_option (\<lambda>r. if row_id r = i then f r else r) (find (\<lambda>r. row_id r = j) xs)"
  using assms by (induction xs) auto

lemma select_sql_update:
  assumes "\<And>r. row_id (f r) = row_id r"
  shows "select_by_id (sql_update f i d) j =
         (if j = i then map_option f (select_by_id d i) else select_by_id d j)"
proof -
  have "select_by_id (sql_update f i d) j =
        map_option (\<lambda>r. if row_id r = i then f r else r) (select_by_id d j)"
    using assms by (simp add: select_by_id_def sql_update_def find_map_same_id)
  also have "\<dots> = (if j = i then map_option f (select_by_id d i) else select_by_id d j)"
    by (cases "select_by_id d j") (auto dest: select_by_id_Some)
  finally show ?thesis .
qed

lemma select_sql_delete:
  "select_by_id (snd (sql_delete i d)) j = (if j = i then None else select_by_id d j)"
proof -
  have "find (\<lambda>r. row_id r = j) (filter (\<lambda>r. row_id r \<noteq> i) xs) =
        (if j = i then None else find (\<lambda>r. row_id r = j) xs)" for xs
    by (induction xs) auto
  from this [of "rows d"] show ?thesis
    by (cases "j = i") (simp_all add: select_by_id_def sql_delete_def)
qed

lemma rowcount_sql_delete:
  "fst (sql_delete i d) > 0 \<longleftrightarrow> select_by_id d i \<noteq> None"
  by (auto simp: sql_delete_def select_by_id_def find_None_iff filter_empty_conv)

lemma sql_delete_absent:
  "select_by_id d i = None \<Longrightarrow> snd (sql_delete i d) = d"
proof -
  assume "select_by_id d i = None"
  then have "\<forall>r \<in> set (rows d). row_id r \<noteq> i"
    by (auto simp: select_by_id_None)
  then have "filter (\<lambda>r. row_id r \<noteq> i) (rows d) = rows d"
    by (simp add: filter_id_conv)
  then show ?thesis by (simp add: sql_delete_def)
qed

lemma select_example_db:
  "select_by_id example_db 1 = Some (example_row 1 ''run'' [''marathon''] ''Sports'')"
  "select_by_id example_db 2 = Some (example_row 2 ''fly'' [''travel''] ''Personal'')"
  "select_by_id example_db 3 = Some (example_row 3 ''hello'' [] ''Uncategorized'')"
  "select_by_id example_db 7 = None"
  by (simp_all add: select_by_id_def example_db_def example_row_def)

lemma update_memory_present:
  assumes "select_by_id d i = Some r"
  shows "update_memory sys d i cont tgs cat =
     (let md = (row_metadata r)\<lparr>tags := py_or tgs (tags (row_metadata r)),
                                category := py_or cat (category (row_metadata r))\<rparr>
      in case truthy cont of
           None \<Rightarrow> Inr (True, sql_update (\<lambda>x. x\<lparr>row_metadata := md\<rparr>) i d)
         | Some c \<Rightarrow>
             if encode sys c = [] then Inr (True, sql_update (\<lambda>x. x\<lparr>row_metadata := md\<rparr>) i d)
             else if length (encode sys c) \<noteq> 384 then Inl DataError
             else Inr (True, sql_update (\<lambda>x. x\<lparr>row_text := c, row_embedding := encode sys c,
                                                row_metadata := md\<rparr>) i d))"
  using assms
  by (auto simp: update_memory_def get_memory_def Let_def truthy_def py_or_def vector384_def
        get_embedding_def split: option.splits)

lemma update_memory_absent:
  "select_by_id d i = None \<Longrightarrow> update_memory sys d i cont tgs cat = Inr (False, d)"
  by (simp add: update_memory_def get_memory_def)

lemma get_memory_select:
  "get_memory d i = map_option (\<lambda>r. \<lparr>mem_id = row_id r, content = row_text r, metadata = row_metadata r\<rparr>) (select_by_id d i)"
  by (simp add: get_memory_def split: option.splits)

lemma sql_update_same:
  assumes "distinct (map row_id (rows d))" and "select_by_id d i = Some r" and "f r = r"
  shows "sql_update f i d = d"
proof -
  have "x = r" if "x \<in> set (rows d)" and "row_id x = i" for x
    using assms(1,2) that
    by (metis distinct_map inj_onD select_by_id_Some)
  then have "map (\<lambda>x. if row_id x = i then f x else x) (rows d) = rows d"
    using assms(3) by (intro map_idI) auto
  then show ?thesis by (simp add: sql_update_def)
qed

lemma truthy_idem: "truthy (truthy x) = truthy x"
  by (simp add: truthy_def split: option.splits)

lemma py_or_truthy: "py_or (truthy x) d = py_or x d"
  by (simp add: truthy_def py_or_def split: option.splits)

lemma update_memory_truthy:
  "update_memory sys d i cont tgs cat =
   update_memory sys d i (truthy cont) (truthy tgs) (truthy cat)"
  by (cases "get_memory d i") (simp_all add: update_memory_def truthy_idem)

text \<open>What one successful call leaves in the row it addresses.\<close>

lemma update_memory_row:
  assumes "select_by_id d i = Some r"
    and "update_memory sys d i cont tgs cat = Inr (ok, d')"
  shows "ok \<and> (\<forall>j. j \<noteq> i \<longrightarrow> select_by_id d' j = select_by_id d j) \<and>
     (\<exists>txt emb.
        select_by_id d' i =
          Some (r\<lparr>row_text := txt, row_embedding := emb,
                  row_metadata := (row_metadata r)
                    \<lparr>tags := py_or tgs (tags (row_metadata r)),
                     category := py_or cat (category (row_metadata r))\<rparr>\<rparr>) \<and>
        (case truthy cont of
           None \<Rightarrow> txt = row_text r \<and> emb = row_embedding r
         | Some c \<Rightarrow>
             if encode sys c = [] then txt = row_text r \<and> emb = row_embedding r
             else txt = c \<and> emb = encode sys c \<and> length emb = 384))"
  using assms(2) unfolding update_memory_present [OF assms(1)] Let_def
  by (auto simp: select_sql_update assms(1) split: option.splits if_splits)

lemma update_example_db:
  "update_memory example_system example_db 1 (Some ''walk'') (Some [''x'']) None =
     Inr (True, example_db\<lparr>rows :=
       [example_row 1 ''walk'' [''x''] ''Sports'',
        example_row 2 ''fly'' [''travel''] ''Personal'',
        example_row 3 ''hello'' [] ''Uncategorized'']\<rparr>)"
  by (simp add: update_memory_def get_memory_def select_by_id_def example_db_def example_row_def
      example_system_def truthy_def vector384_def sql_update_def get_embedding_def)

lemma sql_insert_Inr:
  assumes "sql_insert ts txt emb mdl md d = Inr (i, d')"
  shows "i = next_id d \<and> i \<notin> row_id ` set (rows d) \<and> length emb = 384 \<and>
         (\<exists>m. varchar50 mdl = Inr m \<and>
            d' = \<lparr>rows = rows d @
                    [\<lparr>row_id = i, row_timestamp = ts, row_text = txt, row_embedding = emb,
                      row_model = m, row_metadata = md\<rparr>],
                  next_id = i + 1\<rparr>)"
  using assms
  by (auto simp: sql_insert_def vector384_def split: sum.splits if_splits)

lemma select_after_insert:
  assumes "i \<notin> row_id ` set xs" and "row_id r = i"
  shows "find (\<lambda>x. row_id x = j) (xs @ [r]) =
         (if j = i then Some r else find (\<lambda>x. row_id x = j) xs)"
  using assms by (induction xs) auto

lemma add_memory_Inr:
  assumes "add_memory sys now d cont tgs cat ts = Inr (i, d')"
  shows "\<exists>t m. strptime sys (py_or ts now) = Some t \<and> varchar50 (model_name sys) = Inr m \<and>
           i = next_id d \<and> i \<notin> row_id ` set (rows d) \<and> length (encode sys cont) = 384 \<and>
           d' = \<lparr>rows = rows d @
                    [\<lparr>row_id = i, row_timestamp = t, row_text = cont,
                      row_embedding = encode sys cont, row_model = m,
                      row_metadata = \<lparr>tags = py_or tgs [], category = py_or cat ''Uncategorized'',
                                       timestamp = py_or ts now\<rparr>\<rparr>],
                  next_id = i + 1\<rparr>"
  using assms
  by (auto simp: add_memory_def Let_def get_embedding_def split: option.splits
      dest!: sql_insert_Inr)

lemma add_memory_succeeds:
  assumes "db_inv d" and "next_id d \<le> 2147483647"
    and "length (encode sys cont) = 384" and "length (model_name sys) \<le> 50"
    and "strptime sys (py_or ts now) \<noteq> None"
  shows "\<exists>d'. add_memory sys now d cont tgs cat ts = Inr (next_id d, d')"
proof -
  from assms(1) have "\<not> (\<exists>r \<in> set (rows d). row_id r = next_id d)"
    by (fastforce simp: db_inv_def)
  with assms(2-5) show ?thesis
    by (auto simp: add_memory_def Let_def get_embedding_def sql_insert_def vector384_def
        varchar50_def)
qed

lemma order_by_sort_key: "order_by key t (sort_key key t)"
  by (simp add: order_by_def)

lemma order_by_keys:
  assumes "order_by key t out"
  shows "map key out = sort (map key t)"
proof -
  from assms have "mset (map key out) = mset (map key t)" "sorted (map key out)"
    by (simp_all add: order_by_def)
  then show ?thesis by (rule properties_for_sort [symmetric])
qed

lemma order_by_length: "order_by key t out \<Longrightarrow> length out = length t"
  by (auto simp: order_by_def dest: mset_eq_length)

lemma order_by_set: "order_by key t out \<Longrightarrow> set out = set t"
  by (auto simp: order_by_def dest: mset_eq_setD)

lemma order_by_unique:
  assumes "inj_on key (set t)" and "order_by key t out" and "order_by key t out'"
  shows "out = out'"
proof -
  have "map key out = map key out'"
    by (simp only: order_by_keys [OF assms(2)] order_by_keys [OF assms(3)])
  moreover have "inj_on key (set out \<union> set out')"
    using assms by (simp add: order_by_set)
  ultimately show ?thesis by (simp add: inj_on_map_eq_map)
qed

lemma db_inv_example_db: "db_inv example_db"
  by (simp add: db_inv_def example_db_def example_row_def)

lemma example_db_by_adding:
  "add_memory example_system ''202401010000'' init_db ''run'' (Some [''marathon''])
     (Some ''Sports'') None =
     Inr (1, \<lparr>rows = [example_row 1 ''run'' [''marathon''] ''Sports''], next_id = 2\<rparr>)"
  "add_memory example_system ''202401010000''
     \<lparr>rows = [example_row 1 ''run'' [''marathon''] ''Sports''], next_id = 2\<rparr>
     ''fly'' (Some [''travel'']) (Some ''Personal'') None =
     Inr (2, \<lparr>rows = [example_row 1 ''run'' [''marathon''] ''Sports'',
                       example_row 2 ''fly'' [''travel''] ''Personal''], next_id = 3\<rparr>)"
  "add_memory example_system ''202401010000''
     \<lparr>rows = [example_row 1 ''run'' [''marathon''] ''Sports'',
              example_row 2 ''fly'' [''travel''] ''Personal''], next_id = 3\<rparr>
     ''hello'' None None None = Inr (3, example_db)"
  by (simp_all add: add_memory_def example_system_def init_db_def example_db_def sql_insert_def
      vector384_def varchar50_def py_or_def get_embedding_def example_row_def Let_def)

lemma db_inv_init_db: "db_inv init_db"
  by (simp add: db_inv_def init_db_def)

lemma db_inv_add_memory:
  assumes "db_inv d" and "add_memory sys now d cont tgs cat ts = Inr (i, d')"
  shows "db_inv d'"
proof -
  from add_memory_Inr [OF assms(2)] obtain t m where
    "i = next_id d" "i \<notin> row_id ` set (rows d)" "length (encode sys cont) = 384"
    "d' = \<lparr>rows = rows d @
                    [\<lparr>row_id = i, row_timestamp = t, row_text = cont,
                      row_embedding = encode sys cont, row_model = m,
                      row_metadata = \<lparr>tags = py_or tgs [], category = py_or cat ''Uncategorized'',
                                       timestamp = py_or ts now\<rparr>\<rparr>],
                  next_id = i + 1\<rparr>"
    by blast
  with assms(1) show ?thesis
    by (fastforce simp: db_inv_def)
qed

lemma db_inv_sql_update:
  assumes "db_inv d" and "\<And>r. row_id (f r) = row_id r"
    and "\<And>r. length (row_embedding r) = 384 \<Longrightarrow> length (row_embedding (f r)) = 384"
  shows "db_inv (sql_update f i d)"
proof -
  have "row_id \<circ> (\<lambda>r. if row_id r = i then f r else r) = row_id"
    using assms(2) by (auto simp: fun_eq_iff)
  with assms show ?thesis
    by (auto simp: db_inv_def sql_update_def)
qed

lemma db_inv_update_memory:
  assumes "db_inv d" and "update_memory sys d i cont tgs cat = Inr (ok, d')"
  shows "db_inv d'"
proof (cases "select_by_id d i")
  case None
  with assms show ?thesis by (simp add: update_memory_absent)
next
  case (Some r)
  show ?thesis
    using assms(2) unfolding update_memory_present [OF Some] Let_def
    by (auto split: option.splits if_splits intro!: db_inv_sql_update [OF assms(1)])
qed

lemma db_inv_delete_memory: "db_inv d \<Longrightarrow> db_inv (snd (delete_memory d i))"
  by (auto simp: db_inv_def delete_memory_def sql_delete_def distinct_map_filter)

lemma nan_last_le_Some:
  "nan_last (Some v) \<le> nan_last x \<longleftrightarrow> (case x of None \<Rightarrow> True | Some w \<Rightarrow> v \<le> w)"
  by (simp add: nan_last_def split: option.splits)

lemma nan_last_le_None: "nan_last None \<le> nan_last x \<longleftrightarrow> x = None"
  by (simp add: nan_last_def split: option.splits)

lemma inj_nan_last: "inj nan_last"
  by (auto simp: inj_on_def nan_last_def split: option.splits)

text \<open>A list in the order of \<open>nan_last\<close>: ascending numbers, then the NaNs.\<close>

lemma sorted_nan_last_split:
  assumes "sorted (map (\<lambda>x. nan_last (f x)) xs)"
  shows "\<exists>ds n. map f xs = map Some ds @ replicate n None \<and> sorted ds"
  using assms
proof (induction xs)
  case Nil
  show ?case by (rule exI [of _ "[]"], rule exI [of _ 0]) simp
next
  case (Cons a xs)
  from Cons.prems have le: "\<forall>y \<in> set xs. nan_last (f a) \<le> nan_last (f y)"
    and "sorted (map (\<lambda>x. nan_last (f x)) xs)"
    by simp_all
  with Cons.IH obtain ds n where
    eq: "map f xs = map Some ds @ replicate n None" and srt: "sorted ds"
    by blast
  show ?case
  proof (cases "f a")
    case None
    with le have "\<forall>y \<in> set xs. f y = None"
      by (simp add: nan_last_le_None)
    then have "map f xs = replicate (length xs) None"
      by (induction xs) simp_all
    with None have "map f (a # xs) = map Some [] @ replicate (Suc (length xs)) None"
      by simp
    moreover have "sorted ([] :: real list)" by simp
    ultimately show ?thesis by blast
  next
    case (Some v)
    have "v \<le> w" if "w \<in> set ds" for w
    proof -
      from that have "Some w \<in> set (map f xs)" by (simp add: eq)
      then obtain y where "y \<in> set xs" "f y = Some w" by auto
      with le Some show ?thesis by (auto simp: nan_last_le_Some)
    qed
    with srt have "sorted (v # ds)" by simp
    moreover from Some eq have "map f (a # xs) = map Some (v # ds) @ replicate n None"
      by simp
    ultimately show ?thesis by blast
  qed
qed

lemma similarities_sorted:
  assumes "sorted (map (distance_key q) xs)"
  shows "\<exists>sims n. map similarity (map (to_hit q) xs) = map Some sims @ replicate n None \<and>
           sorted_wrt (\<ge>) sims"
proof -
  from assms have "sorted (map (\<lambda>r. nan_last (cosine_distance (row_embedding r) q)) xs)"
    by (simp add: distance_key_def [abs_def])
  from sorted_nan_last_split [OF this] obtain ds n where
    eq: "map (\<lambda>r. cosine_distance (row_embedding r) q) xs = map Some ds @ replicate n None"
    and srt: "sorted ds"
    by blast
  have "map similarity (map (to_hit q) xs) =
        map (map_option (\<lambda>x. 1 - x)) (map (\<lambda>r. cosine_distance (row_embedding r) q) xs)"
    by (simp add: to_hit_def similarity_of_def)
  also have "\<dots> = map Some (map (\<lambda>x. 1 - x) ds) @ replicate n None"
    by (simp only: eq) simp
  finally have 1: "map similarity (map (to_hit q) xs) =
      map Some (map (\<lambda>x. 1 - x) ds) @ replicate n None" .
  from srt have 2: "sorted_wrt (\<ge>) (map (\<lambda>x. 1 - x) ds)"
    by (induction ds) auto
  from 1 2 show ?thesis by blast
qed

lemma search_with_iff:
  "search_with sys ix p d q k res \<longleftrightarrow>
     (if search_fails sys d q k then res = Inl DataError
      else \<exists>out. order_by (distance_key (get_embedding sys q))
                    (scan ix p d (get_embedding sys q)) out \<and>
                 res = Inr (map (to_hit (get_embedding sys q)) (take (nat k) out)))"
  by (auto simp: search_with.simps)

lemma length_scan: "length (scan ix p d q) \<le> length (rows d)"
  by (cases p) simp_all

lemma set_scan: "set (scan ix p d q) \<subseteq> set (rows d)"
  by (cases p) auto

lemma search_fails_inv:
  assumes "0 \<le> k" and "db_inv d" and "length (get_embedding sys q) = 384"
  shows "\<not> search_fails sys d q k"
  using assms by (auto simp: search_fails_def db_inv_def)

lemma length_axis: "length (axis x y) = 384"
  by (simp add: axis_def)

lemma dot_axis: "dot (axis a b) (axis c d) = a * c + b * d"
  by (simp add: dot_def axis_def sum_list_replicate)

lemma cosine_distance_axis:
  "cosine_distance (axis a b) (axis c d) =
     (if (a * a + b * b) * (c * c + d * d) = 0 then None
      else Some (1 - (a * c + b * d) / sqrt ((a * a + b * b) * (c * c + d * d))))"
  by (simp only: cosine_distance_def dot_axis)

lemma axis_index_axis: "axis_index (axis x y) = (if y < x then 0 else 1)"
  by (simp add: axis_index_def axis_def)

lemma axis_encode_go: "get_embedding axis_system ''go'' = axis 1 0"
  and axis_encode_docker: "get_embedding axis_system ''docker'' = axis 0 1"
  by (simp_all add: get_embedding_def axis_system_def axis_encode_def)

lemma db_inv_axis_db: "db_inv axis_db"
  by (simp add: db_inv_def axis_db_def axis_row_def length_axis)

lemma search_fails_axis_db:
  "\<not> search_fails axis_system axis_db ''go'' 3"
  "\<not> search_fails axis_system axis_db ''docker'' 2"
  by (rule search_fails_inv, simp, rule db_inv_axis_db, simp add: axis_encode_go length_axis,
      rule search_fails_inv, simp, rule db_inv_axis_db, simp add: axis_encode_docker length_axis)

lemma distance_key_axis_row:
  "distance_key (axis c d) (axis_row i txt a b) = nan_last (cosine_distance (axis a b) (axis c d))"
  by (simp add: distance_key_def axis_row_def)

lemma to_hit_axis_row:
  "cosine_distance (axis a b) (axis c d) = Some v \<Longrightarrow>
   to_hit (axis c d) (axis_row i txt a b) = axis_hit i txt (1 - v)"
  by (simp add: to_hit_def axis_row_def axis_hit_def similarity_of_def)

lemma cosine_distance_examples:
  "cosine_distance (axis 1 0) (axis 1 0) = Some 0"
  "cosine_distance (axis (3/5) (4/5)) (axis 1 0) = Some (2/5)"
  "cosine_distance (axis 0 1) (axis 1 0) = Some 1"
  "cosine_distance (axis (3/5) (4/5)) (axis 0 1) = Some (1/5)"
  "cosine_distance (axis 0 1) (axis 0 1) = Some 0"
  by (simp_all add: cosine_distance_axis)

lemma scan_axis_db:
  "scan axis_index IndexScan axis_db (axis 1 0) = [axis_row 1 ''run'' 1 0, axis_row 2 ''fly'' 1 0]"
  "scan axis_index IndexScan axis_db (axis 0 1) =
     [axis_row 3 ''hello'' (3/5) (4/5), axis_row 4 ''docker'' 0 1]"
  "scan axis_index SeqScan axis_db q = rows axis_db"
  by (simp_all add: axis_db_def axis_row_def dot_axis axis_index_axis)

lemma search_axis_db:
  "search_with axis_system axis_index SeqScan axis_db ''go'' 3
     (Inr [axis_hit 1 ''run'' 1, axis_hit 2 ''fly'' 1, axis_hit 3 ''hello'' (3/5)])"
  "search_with axis_system axis_index SeqScan axis_db ''go'' 3
     (Inr [axis_hit 2 ''fly'' 1, axis_hit 1 ''run'' 1, axis_hit 3 ''hello'' (3/5)])"
  "search_with axis_system axis_index IndexScan axis_db ''go'' 3
     (Inr [axis_hit 1 ''run'' 1, axis_hit 2 ''fly'' 1])"
  "search_with axis_system axis_index IndexScan axis_db ''docker'' 2
     (Inr [axis_hit 4 ''docker'' 1, axis_hit 3 ''hello'' (4/5)])"
  "search_with axis_system axis_index IndexScan axis_db ''go'' 3
     (Inr [axis_hit 2 ''fly'' 1, axis_hit 1 ''run'' 1])"
proof -
  let ?r1 = "axis_row 1 ''run'' 1 0" and ?r2 = "axis_row 2 ''fly'' 1 0"
  let ?r3 = "axis_row 3 ''hello'' (3/5) (4/5)" and ?r4 = "axis_row 4 ''docker'' 0 1"
  note ev = distance_key_axis_row cosine_distance_examples nan_last_def
  have o1: "order_by (distance_key (axis 1 0)) (scan axis_index SeqScan axis_db (axis 1 0))
      [?r1, ?r2, ?r3, ?r4]"
    by (simp add: order_by_def axis_db_def ev)
  have o2: "order_by (distance_key (axis 1 0)) (scan axis_index SeqScan axis_db (axis 1 0))
      [?r2, ?r1, ?r3, ?r4]"
    by (simp add: order_by_def axis_db_def ev)
  have o3: "order_by (distance_key (axis 1 0)) (scan axis_index IndexScan axis_db (axis 1 0))
      [?r1, ?r2]"
    by (simp add: order_by_def scan_axis_db ev del: scan.simps)
  have o4: "order_by (distance_key (axis 0 1)) (scan axis_index IndexScan axis_db (axis 0 1))
      [?r4, ?r3]"
    by (simp add: order_by_def scan_axis_db ev del: scan.simps)
  have o5: "order_by (distance_key (axis 1 0)) (scan axis_index IndexScan axis_db (axis 1 0))
      [?r2, ?r1]"
    by (simp add: order_by_def scan_axis_db ev del: scan.simps)
  note hit = to_hit_axis_row [OF cosine_distance_examples(1)]
    to_hit_axis_row [OF cosine_distance_examples(2)]
    to_hit_axis_row [OF cosine_distance_examples(3)]
    to_hit_axis_row [OF cosine_distance_examples(4)]
    to_hit_axis_row [OF cosine_distance_examples(5)]
  have h1: "map (to_hit (axis 1 0)) (take (nat 3) [?r1, ?r2, ?r3, ?r4]) =
      [axis_hit 1 ''run'' 1, axis_hit 2 ''fly'' 1, axis_hit 3 ''hello'' (3/5)]"
    by (simp add: hit)
  have h2: "map (to_hit (axis 1 0)) (take (nat 3) [?r2, ?r1, ?r3, ?r4]) =
      [axis_hit 2 ''fly'' 1, axis_hit 1 ''run'' 1, axis_hit 3 ''hello'' (3/5)]"
    by (simp add: hit)
  have h3: "map (to_hit (axis 1 0)) (take (nat 3) [?r1, ?r2]) =
      [axis_hit 1 ''run'' 1, axis_hit 2 ''fly'' 1]"
    by (simp add: hit)
  have h4: "map (to_hit (axis 0 1)) (take (nat 2) [?r4, ?r3]) =
      [axis_hit 4 ''docker'' 1, axis_hit 3 ''hello'' (4/5)]"
    by (simp add: hit)
  have h5: "map (to_hit (axis 1 0)) (take (nat 3) [?r2, ?r1]) =
      [axis_hit 2 ''fly'' 1, axis_hit 1 ''run'' 1]"
    by (simp add: hit)
  note go = search_fails_axis_db(1) and dk = search_fails_axis_db(2)
  show "search_with axis_system axis_index SeqScan axis_db ''go'' 3
     (Inr [axis_hit 1 ''run'' 1, axis_hit 2 ''fly'' 1, axis_hit 3 ''hello'' (3/5)])"
    using search_rows [OF go, of axis_index SeqScan "[?r1, ?r2, ?r3, ?r4]"] o1
    unfolding axis_encode_go h1 by simp
  show "search_with axis_system axis_index SeqScan axis_db ''go'' 3
     (Inr [axis_hit 2 ''fly'' 1, axis_hit 1 ''run'' 1, axis_hit 3 ''hello'' (3/5)])"
    using search_rows [OF go, of axis_index SeqScan "[?r2, ?r1, ?r3, ?r4]"] o2
    unfolding axis_encode_go h2 by simp
  show "search_with axis_system axis_index IndexScan axis_db ''go'' 3
     (Inr [axis_hit 1 ''run'' 1, axis_hit 2 ''fly'' 1])"
    using search_rows [OF go, of axis_index IndexScan "[?r1, ?r2]"] o3
    unfolding axis_encode_go h3 by simp
  show "search_with axis_system axis_index IndexScan axis_db ''docker'' 2
     (Inr [axis_hit 4 ''docker'' 1, axis_hit 3 ''hello'' (4/5)])"
    using search_rows [OF dk, of axis_index IndexScan "[?r4, ?r3]"] o4
    unfolding axis_encode_docker h4 by simp
  show "search_with axis_system axis_index IndexScan axis_db ''go'' 3
     (Inr [axis_hit 2 ''fly'' 1, axis_hit 1 ''run'' 1])"
    using search_rows [OF go, of axis_index IndexScan "[?r2, ?r1]"] o5
    unfolding axis_encode_go h5 by simp
qed

lemma axis_db_by_adding:
  "add_memory axis_system ''202401010000'' init_db ''run'' None None None =
     Inr (1, \<lparr>rows = [axis_row 1 ''run'' 1 0], next_id = 2\<rparr>)"
  "add_memory axis_system ''202401010000''
     \<lparr>rows = [axis_row 1 ''run'' 1 0], next_id = 2\<rparr> ''fly'' None None None =
     Inr (2, \<lparr>rows = [axis_row 1 ''run'' 1 0, axis_row 2 ''fly'' 1 0], next_id = 3\<rparr>)"
  "add_memory axis_system ''202401010000''
     \<lparr>rows = [axis_row 1 ''run'' 1 0, axis_row 2 ''fly'' 1 0], next_id = 3\<rparr>
     ''hello'' None None None =
     Inr (3, \<lparr>rows = [axis_row 1 ''run'' 1 0, axis_row 2 ''fly'' 1 0,
                       axis_row 3 ''hello'' (3/5) (4/5)], next_id = 4\<rparr>)"
  "add_memory axis_system ''202401010000''
     \<lparr>rows = [axis_row 1 ''run'' 1 0, axis_row 2 ''fly'' 1 0,
              axis_row 3 ''hello'' (3/5) (4/5)], next_id = 4\<rparr>
     ''docker'' None None None = Inr (4, axis_db)"
  by (simp_all add: add_memory_def axis_system_def axis_encode_def init_db_def axis_db_def
      sql_insert_def vector384_def varchar50_def py_or_def get_embedding_def axis_row_def
      length_axis Let_def)

section \<open>Deleting\<close>

text \<open>
  C7. \<open>delete_memory\<close> on an id that no row has returns \<open>False\<close> and leaves the
  table as it is; on an id that a row has, the first call returns \<open>True\<close> and a
  second call, on the table the first one left, returns \<open>False\<close> and changes
  nothing more.
\<close>

theorem delete_memory_absent_then_twice:
  "(get_memory d i = None \<longrightarrow> delete_memory d i = (False, d)) \<and>
   (get_memory d i \<noteq> None \<longrightarrow>
      fst (delete_memory d i) = True \<and>
      delete_memory (snd (delete_memory d i)) i = (False, snd (delete_memory d i)))"
proof -
  have g: "get_memory d' j = None \<longleftrightarrow> select_by_id d' j = None" for d' j
    by (simp add: get_memory_def split: option.splits)
  have dm: "delete_memory d' j = (fst (sql_delete j d') > 0, snd (sql_delete j d'))" for d' j
    by (simp add: delete_memory_def split: prod.splits)
  have absent: "delete_memory d' j = (False, d')" if "select_by_id d' j = None" for d' j
    using that by (simp add: dm rowcount_sql_delete sql_delete_absent)
  have gone: "select_by_id (snd (delete_memory d i)) i = None"
    by (simp add: dm select_sql_delete)
  show ?thesis
    using absent [of d i] absent [OF gone] by (auto simp: g dm rowcount_sql_delete)
qed

theorem delete_memory_absent_then_twice_witness:
  "get_memory example_db 7 = None \<and>
   delete_memory example_db 7 = (False, example_db) \<and>
   get_memory example_db 3 \<noteq> None \<and>
   fst (delete_memory example_db 3) = True \<and>
   delete_memory (snd (delete_memory example_db 3)) 3 = (False, snd (delete_memory example_db 3))"
proof -
  have a: "get_memory example_db 7 = None"
    by (simp add: get_memory_select select_example_db)
  have b: "get_memory example_db 3 \<noteq> None"
    by (simp add: get_memory_select select_example_db)
  from a delete_memory_absent_then_twice [of example_db 7]
  have c: "delete_memory example_db 7 = (False, example_db)"
    by blast
  from b delete_memory_absent_then_twice [of example_db 3]
  have d: "fst (delete_memory example_db 3) = True \<and>
           delete_memory (snd (delete_memory example_db 3)) 3 =
             (False, snd (delete_memory example_db 3))"
    by blast
  from a b c d show ?thesis by blast
qed

section \<open>Reading\<close>

text \<open>
  C5. For every id, \<open>get_memory\<close> either returns the dictionary decoded from the
  row with that id (its id, its text and its whole metadata), or returns
  \<open>None\<close> when no row has the id. It has no error result: a missing id is an
  ordinary value.
\<close>

theorem get_memory_found_or_absent:
  "(\<exists>r \<in> set (rows d). row_id r = i \<and>
      get_memory d i = Some \<lparr>mem_id = i, content = row_text r, metadata = row_metadata r\<rparr>) \<or>
   (i \<notin> row_id ` set (rows d) \<and> get_memory d i = None)"
proof (cases "select_by_id d i")
  case None
  then show ?thesis by (simp add: get_memory_select select_by_id_None)
next
  case (Some r)
  then have "r \<in> set (rows d)" "row_id r = i" by (auto dest: select_by_id_Some)
  with Some show ?thesis by (auto simp: get_memory_select)
qed

theorem get_memory_found_or_absent_witness:
  "get_memory example_db 7 = None \<and>
   get_memory example_db 2 =
     Some \<lparr>mem_id = 2, content = ''fly'',
           metadata = \<lparr>tags = [''travel''], category = ''Personal'', timestamp = ''202401010000''\<rparr>\<rparr>"
proof -
  have a: "\<not> (\<exists>r \<in> set (rows example_db). row_id r = 7 \<and>
      get_memory example_db 7 = Some \<lparr>mem_id = 7, content = row_text r, metadata = row_metadata r\<rparr>)"
    by (simp add: example_db_def example_row_def)
  have b: "2 \<in> row_id ` set (rows example_db)"
    by (simp add: example_db_def example_row_def)
  from a get_memory_found_or_absent [of example_db 7] have c: "get_memory example_db 7 = None"
    by blast
  from b get_memory_found_or_absent [of example_db 2]
  have "\<exists>r \<in> set (rows example_db). row_id r = 2 \<and>
      get_memory example_db 2 = Some \<lparr>mem_id = 2, content = row_text r, metadata = row_metadata r\<rparr>"
    by blast
  then have "get_memory example_db 2 =
     Some \<lparr>mem_id = 2, content = ''fly'',
           metadata = \<lparr>tags = [''travel''], category = ''Personal'', timestamp = ''202401010000''\<rparr>\<rparr>"
    by (auto simp: example_db_def example_row_def)
  with c show ?thesis by simp
qed

section \<open>Updating\<close>

text \<open>
  C10. \<open>update_memory\<close> on the id of a stored row, with \<open>content\<close>,
  \<open>tags\<close> and \<open>category\<close> all omitted, returns \<open>True\<close> and leaves the row
  as it was in every column; no other id reads differently afterwards, and where
  ids are distinct the table is the same table.
\<close>

theorem update_memory_no_fields_identity:
  assumes "select_by_id d i = Some r"
  shows "\<exists>d'. update_memory sys d i None None None = Inr (True, d') \<and>
           select_by_id d' i = Some r \<and>
           (\<forall>j. select_by_id d' j = select_by_id d j) \<and>
           (distinct (map row_id (rows d)) \<longrightarrow> d' = d)"
proof -
  let ?f = "\<lambda>x. x\<lparr>row_metadata := row_metadata r\<rparr>"
  have u: "update_memory sys d i None None None = Inr (True, sql_update ?f i d)"
    using assms by (simp add: update_memory_present truthy_def py_or_def)
  have s: "select_by_id (sql_update ?f i d) j = select_by_id d j" for j
    using assms by (simp add: select_sql_update)
  have "sql_update ?f i d = d" if "distinct (map row_id (rows d))"
    using that assms by (rule sql_update_same) simp
  with u s assms show ?thesis by simp
qed

theorem update_memory_no_fields_identity_witness:
  "select_by_id example_db 2 = Some (example_row 2 ''fly'' [''travel''] ''Personal'') \<and>
   distinct (map row_id (rows example_db)) \<and>
   update_memory example_system example_db 2 None None None = Inr (True, example_db)"
proof -
  have a: "select_by_id example_db 2 = Some (example_row 2 ''fly'' [''travel''] ''Personal'')"
    by (rule select_example_db)
  have b: "distinct (map row_id (rows example_db))"
    by (simp add: example_db_def example_row_def)
  from update_memory_no_fields_identity [OF a, of example_system] b
  have "update_memory example_system example_db 2 None None None = Inr (True, example_db)"
    by blast
  with a b show ?thesis by simp
qed

text \<open>
  C9. An empty string or empty list passed to \<open>update_memory\<close> counts as a
  field that was not passed: the call is the same call as with \<open>None\<close> in
  that place. So on a stored row such a field keeps its stored value, a call with
  all three fields empty leaves the row as it was and returns \<open>True\<close>, and no
  call can empty the tags or the category of a row where they were not empty.
\<close>

theorem update_memory_falsy_is_omitted:
  "update_memory sys d i (Some []) tgs cat = update_memory sys d i None tgs cat \<and>
   update_memory sys d i cont (Some []) cat = update_memory sys d i cont None cat \<and>
   update_memory sys d i cont tgs (Some []) = update_memory sys d i cont tgs None \<and>
   (\<forall>r. select_by_id d i = Some r \<longrightarrow>
      (\<exists>d'. update_memory sys d i (Some []) (Some []) (Some []) = Inr (True, d') \<and>
            select_by_id d' i = Some r) \<and>
      (\<forall>ok d'. update_memory sys d i cont tgs cat = Inr (ok, d') \<longrightarrow>
         (\<exists>r'. select_by_id d' i = Some r' \<and>
            (cont = Some [] \<longrightarrow> row_text r' = row_text r \<and> row_embedding r' = row_embedding r) \<and>
            (tgs = Some [] \<longrightarrow> tags (row_metadata r') = tags (row_metadata r)) \<and>
            (cat = Some [] \<longrightarrow> category (row_metadata r') = category (row_metadata r)) \<and>
            (tags (row_metadata r') = [] \<longrightarrow> tags (row_metadata r) = []) \<and>
            (category (row_metadata r') = [] \<longrightarrow> category (row_metadata r) = []))))"
proof -
  have e1: "update_memory sys d i (Some []) tgs cat = update_memory sys d i None tgs cat"
    by (cases "get_memory d i") (simp_all add: update_memory_def truthy_def)
  have e2: "update_memory sys d i cont (Some []) cat = update_memory sys d i cont None cat"
    by (cases "get_memory d i") (simp_all add: update_memory_def truthy_def)
  have e3: "update_memory sys d i cont tgs (Some []) = update_memory sys d i cont tgs None"
    by (cases "get_memory d i") (simp_all add: update_memory_def truthy_def)
  have p1: "\<exists>d'. update_memory sys d i (Some []) (Some []) (Some []) = Inr (True, d') \<and>
            select_by_id d' i = Some r" if "select_by_id d i = Some r" for r
    using that
    by (simp add: update_memory_present truthy_def py_or_def select_sql_update)
  have p2: "\<exists>r'. select_by_id d' i = Some r' \<and>
            (cont = Some [] \<longrightarrow> row_text r' = row_text r \<and> row_embedding r' = row_embedding r) \<and>
            (tgs = Some [] \<longrightarrow> tags (row_metadata r') = tags (row_metadata r)) \<and>
            (cat = Some [] \<longrightarrow> category (row_metadata r') = category (row_metadata r)) \<and>
            (tags (row_metadata r') = [] \<longrightarrow> tags (row_metadata r) = []) \<and>
            (category (row_metadata r') = [] \<longrightarrow> category (row_metadata r) = [])"
    if "select_by_id d i = Some r" and "update_memory sys d i cont tgs cat = Inr (ok, d')"
    for r ok d'
    using update_memory_row [OF that]
    by (auto simp: truthy_def py_or_def split: option.splits if_splits)
  from e1 e2 e3 p1 p2 show ?thesis by blast
qed

theorem update_memory_falsy_is_omitted_witness:
  "select_by_id example_db 1 = Some (example_row 1 ''run'' [''marathon''] ''Sports'') \<and>
   update_memory example_system example_db 1 (Some []) (Some []) (Some []) =
     update_memory example_system example_db 1 None None None \<and>
   (\<exists>d'. update_memory example_system example_db 1 (Some []) (Some []) (Some []) = Inr (True, d') \<and>
      select_by_id d' 1 = Some (example_row 1 ''run'' [''marathon''] ''Sports''))"
proof -
  have a: "select_by_id example_db 1 = Some (example_row 1 ''run'' [''marathon''] ''Sports'')"
    by (rule select_example_db)
  have b: "update_memory example_system example_db 1 (Some []) (Some []) (Some []) =
     update_memory example_system example_db 1 None None None"
    using update_memory_falsy_is_omitted [of example_system example_db 1 None None "Some []"]
      update_memory_falsy_is_omitted [of example_system example_db 1 None "Some []" "Some []"]
    by simp
  from a update_memory_falsy_is_omitted [of example_system example_db 1 None None None]
  have "\<exists>d'. update_memory example_system example_db 1 (Some []) (Some []) (Some []) = Inr (True, d') \<and>
      select_by_id d' 1 = Some (example_row 1 ''run'' [''marathon''] ''Sports'')"
    by blast
  with a b show ?thesis by blast
qed

text \<open>
  C8. Whatever a call of \<open>update_memory\<close> on a stored row is given, also new
  content, the row afterwards has the \<open>timestamp\<close> column and the
  \<open>timestamp\<close> entry of its metadata that it had before.
\<close>

theorem update_memory_keeps_timestamp:
  assumes "select_by_id d i = Some r"
    and "update_memory sys d i cont tgs cat = Inr (ok, d')"
  shows "\<exists>r'. select_by_id d' i = Some r' \<and>
           row_timestamp r' = row_timestamp r \<and>
           timestamp (row_metadata r') = timestamp (row_metadata r)"
  using update_memory_row [OF assms] by auto

theorem update_memory_keeps_timestamp_witness:
  "select_by_id example_db 1 = Some (example_row 1 ''run'' [''marathon''] ''Sports'') \<and>
   update_memory example_system example_db 1 (Some ''walk'') (Some [''x'']) None =
     Inr (True, example_db\<lparr>rows :=
       [example_row 1 ''walk'' [''x''] ''Sports'',
        example_row 2 ''fly'' [''travel''] ''Personal'',
        example_row 3 ''hello'' [] ''Uncategorized'']\<rparr>) \<and>
   (\<exists>r'. select_by_id (example_db\<lparr>rows :=
       [example_row 1 ''walk'' [''x''] ''Sports'',
        example_row 2 ''fly'' [''travel''] ''Personal'',
        example_row 3 ''hello'' [] ''Uncategorized'']\<rparr>) 1 = Some r' \<and>
      row_timestamp r' = row_timestamp (example_row 1 ''run'' [''marathon''] ''Sports'') \<and>
      timestamp (row_metadata r') =
        timestamp (row_metadata (example_row 1 ''run'' [''marathon''] ''Sports'')))"
proof -
  have a: "select_by_id example_db 1 = Some (example_row 1 ''run'' [''marathon''] ''Sports'')"
    by (rule select_example_db)
  note b = update_example_db
  from update_memory_keeps_timestamp [OF a b] a b show ?thesis by blast
qed

text \<open>
  C2. On a stored row, \<open>update_memory\<close> with only a non-empty \<open>tags\<close> list
  returns \<open>True\<close> and changes the tags of that row and nothing else: text,
  embedding, category and every other row stay. With only a non-empty
  \<open>content\<close>, for which the encoder gives a vector of the column's 384
  components, it sets the text and the embedding of that text together, and
  tags, category and every other row stay.
\<close>

theorem update_memory_partial_isolation:
  assumes "select_by_id d i = Some r"
  shows "(t \<noteq> [] \<longrightarrow>
           (\<exists>d'. update_memory sys d i None (Some t) None = Inr (True, d') \<and>
              select_by_id d' i = Some (r\<lparr>row_metadata := (row_metadata r)\<lparr>tags := t\<rparr>\<rparr>) \<and>
              (\<forall>j. j \<noteq> i \<longrightarrow> select_by_id d' j = select_by_id d j))) \<and>
         (c \<noteq> [] \<and> length (encode sys c) = 384 \<longrightarrow>
           (\<exists>d'. update_memory sys d i (Some c) None None = Inr (True, d') \<and>
              select_by_id d' i = Some (r\<lparr>row_text := c, row_embedding := encode sys c\<rparr>) \<and>
              (\<forall>j. j \<noteq> i \<longrightarrow> select_by_id d' j = select_by_id d j)))"
proof (intro conjI impI)
  assume "t \<noteq> []"
  then show "\<exists>d'. update_memory sys d i None (Some t) None = Inr (True, d') \<and>
              select_by_id d' i = Some (r\<lparr>row_metadata := (row_metadata r)\<lparr>tags := t\<rparr>\<rparr>) \<and>
              (\<forall>j. j \<noteq> i \<longrightarrow> select_by_id d' j = select_by_id d j)"
    using assms by (simp add: update_memory_present truthy_def py_or_def select_sql_update)
next
  assume "c \<noteq> [] \<and> length (encode sys c) = 384"
  then have "c \<noteq> []" "length (encode sys c) = 384" "encode sys c \<noteq> []" by auto
  then show "\<exists>d'. update_memory sys d i (Some c) None None = Inr (True, d') \<and>
              select_by_id d' i = Some (r\<lparr>row_text := c, row_embedding := encode sys c\<rparr>) \<and>
              (\<forall>j. j \<noteq> i \<longrightarrow> select_by_id d' j = select_by_id d j)"
    using assms by (simp add: update_memory_present truthy_def py_or_def select_sql_update)
qed

theorem update_memory_partial_isolation_witness:
  "select_by_id example_db 1 = Some (example_row 1 ''run'' [''marathon''] ''Sports'') \<and>
   [''x''] \<noteq> [] \<and> ''walk'' \<noteq> [] \<and> length (encode example_system ''walk'') = 384 \<and>
   (\<exists>d'. update_memory example_system example_db 1 None (Some [''x'']) None = Inr (True, d') \<and>
      select_by_id d' 1 = Some (example_row 1 ''run'' [''x''] ''Sports'') \<and>
      select_by_id d' 2 = select_by_id example_db 2) \<and>
   (\<exists>d'. update_memory example_system example_db 1 (Some ''walk'') None None = Inr (True, d') \<and>
      select_by_id d' 1 = Some (example_row 1 ''walk'' [''marathon''] ''Sports'') \<and>
      select_by_id d' 2 = select_by_id example_db 2)"
proof -
  have a: "select_by_id example_db 1 = Some (example_row 1 ''run'' [''marathon''] ''Sports'')"
    by (rule select_example_db)
  have b: "[''x''] \<noteq> ([] :: string list)" by simp
  have c: "''walk'' \<noteq> [] \<and> length (encode example_system ''walk'') = 384"
    by (simp add: example_system_def)
  have r1: "(example_row 1 ''run'' [''marathon''] ''Sports'')
              \<lparr>row_metadata := (row_metadata (example_row 1 ''run'' [''marathon''] ''Sports''))
                 \<lparr>tags := [''x'']\<rparr>\<rparr> = example_row 1 ''run'' [''x''] ''Sports''"
    by (simp add: example_row_def)
  have r2: "(example_row 1 ''run'' [''marathon''] ''Sports'')
              \<lparr>row_text := ''walk'', row_embedding := encode example_system ''walk''\<rparr> =
            example_row 1 ''walk'' [''marathon''] ''Sports''"
    by (simp add: example_row_def example_system_def)
  note th = update_memory_partial_isolation [OF a, of "[''x'']" example_system "''walk''"]
  from th b have p: "\<exists>d'. update_memory example_system example_db 1 None (Some [''x'']) None = Inr (True, d') \<and>
      select_by_id d' 1 = Some (example_row 1 ''run'' [''x''] ''Sports'') \<and>
      select_by_id d' 2 = select_by_id example_db 2"
    unfolding r1 by fastforce
  from th c have q: "\<exists>d'. update_memory example_system example_db 1 (Some ''walk'') None None = Inr (True, d') \<and>
      select_by_id d' 1 = Some (example_row 1 ''walk'' [''marathon''] ''Sports'') \<and>
      select_by_id d' 2 = select_by_id example_db 2"
    unfolding r2 by fastforce
  from a b c p q show ?thesis by blast
qed

text \<open>
  C6. On an id that no row has, \<open>update_memory\<close> returns \<open>False\<close> and the
  table is the one before. On a stored row, for an encoder that gives no empty
  vector, the call either fails in the \<open>UPDATE\<close> statement (the new embedding
  has not 384 components) and nothing is written, or returns \<open>True\<close> with
  every supplied field in the row: text and embedding, tags, category. No other
  row changes.
\<close>

theorem update_memory_all_or_nothing:
  "(select_by_id d i = None \<longrightarrow> update_memory sys d i cont tgs cat = Inr (False, d)) \<and>
   (\<forall>r. select_by_id d i = Some r \<and> [] \<notin> encode sys ` set_option (truthy cont) \<longrightarrow>
      ((\<exists>c. truthy cont = Some c \<and> length (encode sys c) \<noteq> 384) \<and>
       update_memory sys d i cont tgs cat = Inl DataError) \<or>
      (\<exists>d'. update_memory sys d i cont tgs cat = Inr (True, d') \<and>
         select_by_id d' i =
           Some (r\<lparr>row_text := py_or cont (row_text r),
                   row_embedding := (case truthy cont of None \<Rightarrow> row_embedding r
                                     | Some c \<Rightarrow> encode sys c),
                   row_metadata := (row_metadata r)
                     \<lparr>tags := py_or tgs (tags (row_metadata r)),
                      category := py_or cat (category (row_metadata r))\<rparr>\<rparr>) \<and>
         (\<forall>j. j \<noteq> i \<longrightarrow> select_by_id d' j = select_by_id d j)))"
proof (intro conjI impI allI)
  assume "select_by_id d i = None"
  then show "update_memory sys d i cont tgs cat = Inr (False, d)"
    by (rule update_memory_absent)
next
  fix r
  assume h: "select_by_id d i = Some r \<and> [] \<notin> encode sys ` set_option (truthy cont)"
  then have s: "select_by_id d i = Some r" by simp
  show "((\<exists>c. truthy cont = Some c \<and> length (encode sys c) \<noteq> 384) \<and>
       update_memory sys d i cont tgs cat = Inl DataError) \<or>
      (\<exists>d'. update_memory sys d i cont tgs cat = Inr (True, d') \<and>
         select_by_id d' i =
           Some (r\<lparr>row_text := py_or cont (row_text r),
                   row_embedding := (case truthy cont of None \<Rightarrow> row_embedding r
                                     | Some c \<Rightarrow> encode sys c),
                   row_metadata := (row_metadata r)
                     \<lparr>tags := py_or tgs (tags (row_metadata r)),
                      category := py_or cat (category (row_metadata r))\<rparr>\<rparr>) \<and>
         (\<forall>j. j \<noteq> i \<longrightarrow> select_by_id d' j = select_by_id d j))"
  proof (cases "truthy cont")
    case None
    then have "py_or cont (row_text r) = row_text r"
      by (auto simp: truthy_def py_or_def split: option.splits if_splits)
    with None s show ?thesis
      by (simp add: update_memory_present select_sql_update)
  next
    case (Some c)
    then have p: "py_or cont (row_text r) = c"
      by (auto simp: truthy_def py_or_def split: option.splits if_splits)
    from h Some have ne: "encode sys c \<noteq> []" by auto
    show ?thesis
    proof (cases "length (encode sys c) = 384")
      case True
      with Some s p ne show ?thesis
        by (simp add: update_memory_present select_sql_update)
    next
      case False
      with Some s ne show ?thesis
        by (simp add: update_memory_present)
    qed
  qed
qed

theorem update_memory_all_or_nothing_witness:
  "select_by_id example_db 7 = None \<and>
   update_memory example_system example_db 7 (Some ''walk'') (Some [''x'']) None =
     Inr (False, example_db) \<and>
   select_by_id example_db 1 = Some (example_row 1 ''run'' [''marathon''] ''Sports'') \<and>
   [] \<notin> encode example_system ` set_option (truthy (Some ''walk'')) \<and>
   (\<exists>d'. update_memory example_system example_db 1 (Some ''walk'') (Some [''x'']) None =
       Inr (True, d') \<and>
     select_by_id d' 1 = Some (example_row 1 ''walk'' [''x''] ''Sports''))"
proof -
  have a: "select_by_id example_db 7 = None"
    by (rule select_example_db)
  have b: "select_by_id example_db 1 = Some (example_row 1 ''run'' [''marathon''] ''Sports'')"
    by (rule select_example_db)
  have c: "[] \<notin> encode example_system ` set_option (truthy (Some ''walk''))"
    by (simp add: example_system_def truthy_def)
  have ok: "update_memory example_system example_db 1 (Some ''walk'') (Some [''x'']) None \<noteq>
      Inl DataError"
    by (simp add: update_example_db)
  have r: "(example_row 1 ''run'' [''marathon''] ''Sports'')
      \<lparr>row_text := py_or (Some ''walk'') (row_text (example_row 1 ''run'' [''marathon''] ''Sports'')),
       row_embedding := (case truthy (Some ''walk'') of
           None \<Rightarrow> row_embedding (example_row 1 ''run'' [''marathon''] ''Sports'')
         | Some c \<Rightarrow> encode example_system c),
       row_metadata := (row_metadata (example_row 1 ''run'' [''marathon''] ''Sports''))
         \<lparr>tags := py_or (Some [''x''])
            (tags (row_metadata (example_row 1 ''run'' [''marathon''] ''Sports''))),
          category := py_or None
            (category (row_metadata (example_row 1 ''run'' [''marathon''] ''Sports'')))\<rparr>\<rparr> =
      example_row 1 ''walk'' [''x''] ''Sports''"
    by (simp add: example_row_def example_system_def py_or_def truthy_def)
  from a update_memory_all_or_nothing [of example_db 7 example_system "Some ''walk''" "Some [''x'']" None]
  have p: "update_memory example_system example_db 7 (Some ''walk'') (Some [''x'']) None =
     Inr (False, example_db)"
    by blast
  note th = update_memory_all_or_nothing
    [of example_db 1 example_system "Some ''walk''" "Some [''x'']" None, THEN conjunct2, THEN spec,
     of "example_row 1 ''run'' [''marathon''] ''Sports''", THEN mp, OF conjI [OF b c]]
  from th ok
  have q: "\<exists>d'. update_memory example_system example_db 1 (Some ''walk'') (Some [''x'']) None =
       Inr (True, d') \<and>
     select_by_id d' 1 = Some (example_row 1 ''walk'' [''x''] ''Sports'')"
    unfolding r by blast
  from a b c p q show ?thesis by blast
qed

section \<open>Adding\<close>

text \<open>
  C1. Whenever \<open>add_memory\<close> returns an id, \<open>get_memory\<close> on that id and
  the new table returns the content that was passed, the tags that were passed
  (the empty list when they were omitted), and the category that was passed
  when it is a non-empty string. The category is built by
  \<open>category or 'Uncategorized'\<close>, so an omitted category and an empty one both
  read \<open>Uncategorized\<close>: the round trip holds for the category up to this
  default, and not for the empty string, as the example after the theorem
  shows.
\<close>

theorem add_then_get_roundtrip:
  assumes "add_memory sys now d cont tgs cat ts = Inr (i, d')"
  shows "get_memory d' i =
     Some \<lparr>mem_id = i, content = cont,
           metadata = \<lparr>tags = (case tgs of None \<Rightarrow> [] | Some t \<Rightarrow> t),
                        category = (case cat of None \<Rightarrow> ''Uncategorized''
                                    | Some g \<Rightarrow> if g = [] then ''Uncategorized'' else g),
                        timestamp = py_or ts now\<rparr>\<rparr>"
proof -
  from add_memory_Inr [OF assms] obtain t m where
    fresh: "i \<notin> row_id ` set (rows d)" and
    d': "d' = \<lparr>rows = rows d @
                    [\<lparr>row_id = i, row_timestamp = t, row_text = cont,
                      row_embedding = encode sys cont, row_model = m,
                      row_metadata = \<lparr>tags = py_or tgs [], category = py_or cat ''Uncategorized'',
                                       timestamp = py_or ts now\<rparr>\<rparr>],
                  next_id = i + 1\<rparr>"
    by blast
  have t: "py_or tgs [] = (case tgs of None \<Rightarrow> [] | Some t \<Rightarrow> t)"
    by (simp add: py_or_def split: option.splits)
  have c: "py_or cat ''Uncategorized'' =
     (case cat of None \<Rightarrow> ''Uncategorized'' | Some g \<Rightarrow> if g = [] then ''Uncategorized'' else g)"
    by (simp add: py_or_def split: option.splits)
  show ?thesis
    unfolding get_memory_select select_by_id_def d'
    using fresh by (simp add: select_after_insert t c)
qed

theorem add_then_get_roundtrip_witness:
  "add_memory example_system ''202401010000'' example_db ''swim'' None (Some ''Sports'') None =
     Inr (4, example_db\<lparr>rows := rows example_db @ [example_row 4 ''swim'' [] ''Sports''],
                         next_id := 5\<rparr>) \<and>
   get_memory (example_db\<lparr>rows := rows example_db @ [example_row 4 ''swim'' [] ''Sports''],
                          next_id := 5\<rparr>) 4 =
     Some \<lparr>mem_id = 4, content = ''swim'',
           metadata = \<lparr>tags = [], category = ''Sports'', timestamp = ''202401010000''\<rparr>\<rparr>"
proof -
  have a: "add_memory example_system ''202401010000'' example_db ''swim'' None (Some ''Sports'') None =
     Inr (4, example_db\<lparr>rows := rows example_db @ [example_row 4 ''swim'' [] ''Sports''],
                         next_id := 5\<rparr>)"
    by (simp add: add_memory_def example_system_def example_db_def sql_insert_def vector384_def
        varchar50_def py_or_def get_embedding_def example_row_def)
  from add_then_get_roundtrip [OF a] a show ?thesis
    by (simp add: py_or_def)
qed

theorem add_then_get_empty_category_counterexample:
  "add_memory example_system ''202401010000'' init_db ''swim'' None (Some '''') None =
     Inr (1, \<lparr>rows = [example_row 1 ''swim'' [] ''Uncategorized''], next_id = 2\<rparr>) \<and>
   get_memory \<lparr>rows = [example_row 1 ''swim'' [] ''Uncategorized''], next_id = 2\<rparr> 1 =
     Some \<lparr>mem_id = 1, content = ''swim'',
           metadata = \<lparr>tags = [], category = ''Uncategorized'', timestamp = ''202401010000''\<rparr>\<rparr> \<and>
   ''Uncategorized'' \<noteq> ''''"
  by (simp add: add_memory_def example_system_def init_db_def sql_insert_def vector384_def
      varchar50_def py_or_def get_embedding_def example_row_def get_memory_def select_by_id_def)

section \<open>Searching\<close>

text \<open>
  C3. For a table in the invariant, a query whose embedding has 384 components
  and \<open>k \<ge> 1\<close>, \<open>search_memories\<close> returns a list and never an error. Every
  list it can return consists of stored rows, each with the similarity
  \<open>1 - cosine_distance\<close> between the row's embedding and the query's, in
  non-increasing order of similarity, entries whose similarity is NaN last, and
  is empty for an empty table. For a table of \<open>n\<close> rows its length is at most
  \<open>min k n\<close>, and it is \<open>min k n\<close> when the table is scanned sequentially. A
  scan of the ivfflat index reads one list of the index and can return fewer
  rows, as the example after the theorem shows: four stored rows in two lists,
  \<open>k = 3\<close>, two rows returned.
\<close>

theorem search_memories_ranked:
  assumes "1 \<le> k" and "db_inv d" and "length (get_embedding sys q) = 384"
  shows "(\<exists>hits. search_memories sys ix d q k (Inr hits)) \<and>
    (\<forall>e. \<not> search_memories sys ix d q k (Inl e)) \<and>
    (\<forall>hits. search_memories sys ix d q k (Inr hits) \<longrightarrow>
       (\<exists>sims n. map similarity hits = map Some sims @ replicate n None \<and>
          sorted_wrt (\<ge>) sims) \<and>
       length hits \<le> min (nat k) (length (rows d)) \<and>
       (\<forall>h \<in> set hits. \<exists>r \<in> set (rows d).
          hit_id h = row_id r \<and> hit_content h = row_text r \<and>
          hit_metadata h = row_metadata r \<and>
          similarity h =
            map_option (\<lambda>x. 1 - x) (cosine_distance (row_embedding r) (get_embedding sys q))) \<and>
       (rows d = [] \<longrightarrow> hits = [])) \<and>
    (\<forall>hits. search_with sys ix SeqScan d q k (Inr hits) \<longrightarrow>
       length hits = min (nat k) (length (rows d)))"
proof -
  let ?qv = "get_embedding sys q"
  from assms have nf: "\<not> search_fails sys d q k"
    by (intro search_fails_inv) auto
  have "search_with sys ix SeqScan d q k
          (Inr (map (to_hit ?qv) (take (nat k) (sort_key (distance_key ?qv) (rows d)))))"
    using nf order_by_sort_key [of "distance_key ?qv" "rows d"]
    by (intro search_rows) simp_all
  then have ex: "\<exists>hits. search_memories sys ix d q k (Inr hits)"
    unfolding search_memories_def by blast
  have noerr: "\<forall>e. \<not> search_memories sys ix d q k (Inl e)"
    using nf by (simp add: search_memories_def search_with_iff)
  have with_p: "(\<exists>sims n. map similarity hits = map Some sims @ replicate n None \<and>
          sorted_wrt (\<ge>) sims) \<and>
       length hits \<le> min (nat k) (length (rows d)) \<and>
       (\<forall>h \<in> set hits. \<exists>r \<in> set (rows d).
          hit_id h = row_id r \<and> hit_content h = row_text r \<and>
          hit_metadata h = row_metadata r \<and>
          similarity h = map_option (\<lambda>x. 1 - x) (cosine_distance (row_embedding r) ?qv)) \<and>
       (rows d = [] \<longrightarrow> hits = []) \<and>
       (p = SeqScan \<longrightarrow> length hits = min (nat k) (length (rows d)))"
    if "search_with sys ix p d q k (Inr hits)" for hits p
  proof -
    from that nf obtain out where
      ob: "order_by (distance_key ?qv) (scan ix p d ?qv) out" and
      hits: "hits = map (to_hit ?qv) (take (nat k) out)"
      by (auto simp: search_with_iff)
    from ob have "sorted (map (distance_key ?qv) out)" by (simp add: order_by_def)
    then have "sorted (map (distance_key ?qv) (take (nat k) out))"
      by (simp add: sorted_wrt_take flip: take_map)
    then have 1: "\<exists>sims n. map similarity hits = map Some sims @ replicate n None \<and>
          sorted_wrt (\<ge>) sims"
      unfolding hits by (rule similarities_sorted)
    have len: "length out = length (scan ix p d ?qv)"
      using ob by (rule order_by_length)
    have 2: "length hits \<le> min (nat k) (length (rows d))"
      unfolding hits using len length_scan [of ix p d ?qv] by simp
    have "set (take (nat k) out) \<subseteq> set (rows d)"
      using order_by_set [OF ob] set_take_subset [of "nat k" out] set_scan [of ix p d ?qv]
      by blast
    then have 3: "\<forall>h \<in> set hits. \<exists>r \<in> set (rows d).
          hit_id h = row_id r \<and> hit_content h = row_text r \<and>
          hit_metadata h = row_metadata r \<and>
          similarity h = map_option (\<lambda>x. 1 - x) (cosine_distance (row_embedding r) ?qv)"
      unfolding hits by (auto simp: to_hit_def similarity_of_def)
    have 4: "rows d = [] \<longrightarrow> hits = []"
      unfolding hits using len length_scan [of ix p d ?qv] by auto
    have 5: "p = SeqScan \<longrightarrow> length hits = min (nat k) (length (rows d))"
      unfolding hits using len by auto
    from 1 2 3 4 5 show ?thesis by (intro conjI)
  qed
  have all: "(\<exists>sims n. map similarity hits = map Some sims @ replicate n None \<and>
          sorted_wrt (\<ge>) sims) \<and>
       length hits \<le> min (nat k) (length (rows d)) \<and>
       (\<forall>h \<in> set hits. \<exists>r \<in> set (rows d).
          hit_id h = row_id r \<and> hit_content h = row_text r \<and>
          hit_metadata h = row_metadata r \<and>
          similarity h = map_option (\<lambda>x. 1 - x) (cosine_distance (row_embedding r) ?qv)) \<and>
       (rows d = [] \<longrightarrow> hits = [])"
    if "search_memories sys ix d q k (Inr hits)" for hits
  proof -
    from that obtain p where "search_with sys ix p d q k (Inr hits)"
      unfolding search_memories_def by blast
    from with_p [OF this] show ?thesis by (elim conjE) (intro conjI)
  qed
  have seq: "length hits = min (nat k) (length (rows d))"
    if "search_with sys ix SeqScan d q k (Inr hits)" for hits
    using with_p [OF that] by simp
  from all have all': "\<forall>hits. search_memories sys ix d q k (Inr hits) \<longrightarrow>
       (\<exists>sims n. map similarity hits = map Some sims @ replicate n None \<and>
          sorted_wrt (\<ge>) sims) \<and>
       length hits \<le> min (nat k) (length (rows d)) \<and>
       (\<forall>h \<in> set hits. \<exists>r \<in> set (rows d).
          hit_id h = row_id r \<and> hit_content h = row_text r \<and>
          hit_metadata h = row_metadata r \<and>
          similarity h = map_option (\<lambda>x. 1 - x) (cosine_distance (row_embedding r) ?qv)) \<and>
       (rows d = [] \<longrightarrow> hits = [])"
    by (intro allI impI)
  from seq have seq': "\<forall>hits. search_with sys ix SeqScan d q k (Inr hits) \<longrightarrow>
       length hits = min (nat k) (length (rows d))"
    by (intro allI impI)
  from ex noerr all' seq' show ?thesis by (intro conjI)
qed

theorem search_memories_ranked_witness:
  "(1::int) \<le> 2 \<and> db_inv axis_db \<and> length (get_embedding axis_system ''docker'') = 384 \<and>
   search_memories axis_system axis_index axis_db ''docker'' 2
     (Inr [axis_hit 4 ''docker'' 1, axis_hit 3 ''hello'' (4/5)]) \<and>
   (\<exists>sims n.
      map similarity [axis_hit 4 ''docker'' 1, axis_hit 3 ''hello'' (4/5)] =
        map Some sims @ replicate n None \<and>
      sorted_wrt (\<ge>) sims) \<and>
   length [axis_hit 4 ''docker'' 1, axis_hit 3 ''hello'' (4/5)] \<le>
     min (nat 2) (length (rows axis_db))"
proof -
  have a: "(1::int) \<le> 2" by simp
  have b: "db_inv axis_db" by (rule db_inv_axis_db)
  have c: "length (get_embedding axis_system ''docker'') = 384"
    by (simp add: axis_encode_docker length_axis)
  have s: "search_memories axis_system axis_index axis_db ''docker'' 2
     (Inr [axis_hit 4 ''docker'' 1, axis_hit 3 ''hello'' (4/5)])"
    unfolding search_memories_def by (rule disjI2) (rule search_axis_db(4))
  note th = search_memories_ranked [OF a b c, THEN conjunct2, THEN conjunct2, THEN conjunct1,
      THEN spec, THEN mp, OF s]
  note p1 = th [THEN conjunct1] and p2 = th [THEN conjunct2, THEN conjunct1]
  from a b c s p1 p2 show ?thesis by (intro conjI)
qed

theorem search_memories_index_count_counterexample:
  "search_memories axis_system axis_index axis_db ''go'' 3
     (Inr [axis_hit 1 ''run'' 1, axis_hit 2 ''fly'' 1]) \<and>
   length [axis_hit 1 ''run'' 1, axis_hit 2 ''fly'' 1] < min (nat 3) (length (rows axis_db))"
proof -
  have s: "search_memories axis_system axis_index axis_db ''go'' 3
     (Inr [axis_hit 1 ''run'' 1, axis_hit 2 ''fly'' 1])"
    unfolding search_memories_def by (rule disjI2) (rule search_axis_db(3))
  have l: "length [axis_hit 1 ''run'' 1, axis_hit 2 ''fly'' 1] <
      min (nat 3) (length (rows axis_db))"
    by (simp add: axis_db_def)
  from s l show ?thesis by (intro conjI)
qed

text \<open>
  C4. With the plan fixed, two runs of one search on one table and index return
  the same list of similarity scores (or the same error), and the same list of
  rows when the distances of the rows read are pairwise distinct. The result is
  not a function of the stored rows alone. The statement sorts by the distance
  only, so rows of equal distance come in either order and not in the order of
  insertion; and the plan decides which rows are read. In the table built by
  adding four memories in the order 1, 2, 3, 4, the rows 1 and 2 have one
  distance to the query and lie in one list of the index: the answer of the
  index scan with row 1 first, its answer with row 2 first, and the answer of
  the sequential scan, which has row 3 as well, are all answers of the method,
  as the example after the theorem shows.
\<close>

theorem search_memories_scores_determined:
  assumes "search_with sys ix p d q k res" and "search_with sys ix p d q k res'"
  shows "map_sum id (map similarity) res = map_sum id (map similarity) res' \<and>
    (distinct (map (\<lambda>r. cosine_distance (row_embedding r) (get_embedding sys q))
                (scan ix p d (get_embedding sys q)))
       \<longrightarrow> res = res')"
proof (cases "search_fails sys d q k")
  case True
  with assms show ?thesis by (simp add: search_with_iff)
next
  case False
  let ?qv = "get_embedding sys q"
  let ?key = "distance_key ?qv"
  let ?t = "scan ix p d ?qv"
  from False assms obtain out out' where
    ob: "order_by ?key ?t out" "order_by ?key ?t out'" and
    res: "res = Inr (map (to_hit ?qv) (take (nat k) out))"
         "res' = Inr (map (to_hit ?qv) (take (nat k) out'))"
    by (auto simp: search_with_iff)
  have keys: "map ?key out = map ?key out'"
    by (simp only: order_by_keys [OF ob(1)] order_by_keys [OF ob(2)])
  then have "map nan_last (map (\<lambda>r. cosine_distance (row_embedding r) ?qv) out) =
             map nan_last (map (\<lambda>r. cosine_distance (row_embedding r) ?qv) out')"
    by (simp add: distance_key_def [abs_def] comp_def)
  then have "map (\<lambda>r. cosine_distance (row_embedding r) ?qv) out =
             map (\<lambda>r. cosine_distance (row_embedding r) ?qv) out'"
    by (rule injD [OF inj_mapI [OF inj_nan_last]])
  then have "map (map_option (\<lambda>x. 1 - x)) (map (\<lambda>r. cosine_distance (row_embedding r) ?qv) out) =
             map (map_option (\<lambda>x. 1 - x)) (map (\<lambda>r. cosine_distance (row_embedding r) ?qv) out')"
    by (rule arg_cong)
  then have "map (\<lambda>r. similarity_of (row_embedding r) ?qv) out =
             map (\<lambda>r. similarity_of (row_embedding r) ?qv) out'"
    by (simp add: similarity_of_def [abs_def] comp_def)
  then have "take (nat k) (map (\<lambda>r. similarity_of (row_embedding r) ?qv) out) =
             take (nat k) (map (\<lambda>r. similarity_of (row_embedding r) ?qv) out')"
    by simp
  then have 1: "map_sum id (map similarity) res = map_sum id (map similarity) res'"
    unfolding res by (simp add: to_hit_def comp_def take_map)
  have 2: "res = res'"
    if "distinct (map (\<lambda>r. cosine_distance (row_embedding r) ?qv) ?t)"
  proof -
    from that have "inj_on (\<lambda>r. cosine_distance (row_embedding r) ?qv) (set ?t)"
      by (simp add: distinct_map)
    then have "inj_on ?key (set ?t)"
      using inj_nan_last by (auto simp: inj_on_def distance_key_def)
    from this ob have "out = out'" by (rule order_by_unique)
    with res show ?thesis by simp
  qed
  from 1 2 show ?thesis by blast
qed

theorem search_memories_scores_determined_witness:
  "search_with axis_system axis_index IndexScan axis_db ''go'' 3
     (Inr [axis_hit 1 ''run'' 1, axis_hit 2 ''fly'' 1]) \<and>
   search_with axis_system axis_index IndexScan axis_db ''go'' 3
     (Inr [axis_hit 2 ''fly'' 1, axis_hit 1 ''run'' 1]) \<and>
   map_sum id (map similarity)
     (Inr [axis_hit 1 ''run'' 1, axis_hit 2 ''fly'' 1] :: error + hit list) =
   map_sum id (map similarity) (Inr [axis_hit 2 ''fly'' 1, axis_hit 1 ''run'' 1]) \<and>
   distinct (map (\<lambda>r. cosine_distance (row_embedding r) (get_embedding axis_system ''docker''))
     (scan axis_index IndexScan axis_db (get_embedding axis_system ''docker''))) \<and>
   search_with axis_system axis_index IndexScan axis_db ''docker'' 2
     (Inr [axis_hit 4 ''docker'' 1, axis_hit 3 ''hello'' (4/5)])"
proof -
  note s1 = search_axis_db(3) and s2 = search_axis_db(5) and s4 = search_axis_db(4)
  note a = search_memories_scores_determined [OF s1 s2, THEN conjunct1]
  have b: "distinct (map (\<lambda>r. cosine_distance (row_embedding r)
                              (get_embedding axis_system ''docker''))
     (scan axis_index IndexScan axis_db (get_embedding axis_system ''docker'')))"
    unfolding axis_encode_docker scan_axis_db
    by (simp add: axis_row_def cosine_distance_examples)
  from s1 s2 a b s4 show ?thesis by (intro conjI)
qed

theorem search_memories_tie_order_counterexample:
  "search_memories axis_system axis_index axis_db ''go'' 3
     (Inr [axis_hit 1 ''run'' 1, axis_hit 2 ''fly'' 1]) \<and>
   search_memories axis_system axis_index axis_db ''go'' 3
     (Inr [axis_hit 2 ''fly'' 1, axis_hit 1 ''run'' 1]) \<and>
   search_memories axis_system axis_index axis_db ''go'' 3
     (Inr [axis_hit 1 ''run'' 1, axis_hit 2 ''fly'' 1, axis_hit 3 ''hello'' (3/5)]) \<and>
   [axis_hit 1 ''run'' 1, axis_hit 2 ''fly'' 1] \<noteq>
   [axis_hit 2 ''fly'' 1, axis_hit 1 ''run'' 1]"
proof -
  have s1: "search_memories axis_system axis_index axis_db ''go'' 3
     (Inr [axis_hit 1 ''run'' 1, axis_hit 2 ''fly'' 1])"
    unfolding search_memories_def by (rule disjI2) (rule search_axis_db(3))
  have s2: "search_memories axis_system axis_index axis_db ''go'' 3
     (Inr [axis_hit 2 ''fly'' 1, axis_hit 1 ''run'' 1])"
    unfolding search_memories_def by (rule disjI2) (rule search_axis_db(5))
  have s3: "search_memories axis_system axis_index axis_db ''go'' 3
     (Inr [axis_hit 1 ''run'' 1, axis_hit 2 ''fly'' 1, axis_hit 3 ''hello'' (3/5)])"
    unfolding search_memories_def by (rule disjI1) (rule search_axis_db(1))
  have n: "[axis_hit 1 ''run'' 1, axis_hit 2 ''fly'' 1] \<noteq>
   [axis_hit 2 ''fly'' 1, axis_hit 1 ''run'' 1]"
    by (simp add: axis_hit_def)
  from s1 s2 s3 n show ?thesis by (intro conjI)
qed

end
